theory Spec2Isabelle
  imports Main
begin

section \<open>The theme controller of \<^verbatim>\<open>src/theme.js\<close>\<close>

text \<open>
  The script keeps a light/dark theme in three places of the browser: the entry
  \<^verbatim>\<open>theme-preference\<close> of \<^verbatim>\<open>localStorage\<close>, the attribute \<^verbatim>\<open>data-theme\<close> of the
  document's root element, and the two text attributes of the toggle button. It reads the
  operating system's preference through \<^verbatim>\<open>window.matchMedia\<close>.

  The embedding passes the browser's state explicitly. Every function of the script that can
  run a throwing operation returns \<open>exn + result\<close>, \<open>Inl\<close> being a thrown exception that
  nobody caught, so that a \<^verbatim>\<open>try\<close>/\<^verbatim>\<open>catch\<close> and a null check are branches of the model.
\<close>

subsection \<open>Values and exceptions\<close>

text \<open>
  The JavaScript values the script handles: \<^verbatim>\<open>null\<close> and strings. \<open>toString\<close> is the
  conversion the DOM applies to an argument declared as a string, and \<open>truthy\<close> is the
  conversion of \<^verbatim>\<open>!v\<close> and \<^verbatim>\<open>if (v)\<close>: \<^verbatim>\<open>null\<close> and the empty string are falsy.
\<close>

datatype jsval = Null | Str string

fun toString :: "jsval \<Rightarrow> string" where
  "toString Null = ''null''"
| "toString (Str v) = v"

fun truthy :: "jsval \<Rightarrow> bool" where
  "truthy Null = False"
| "truthy (Str v) = (v \<noteq> [])"

datatype exn = StorageError | TypeError

definition andThen :: "exn + 'a \<Rightarrow> ('a \<Rightarrow> exn + 'b) \<Rightarrow> exn + 'b" where
  "andThen r f = (case r of Inl e \<Rightarrow> Inl e | Inr v \<Rightarrow> f v)"

definition try_catch :: "exn + 'a \<Rightarrow> (exn \<Rightarrow> exn + 'a) \<Rightarrow> exn + 'a" where
  "try_catch body handler = (case body of Inl e \<Rightarrow> handler e | Inr v \<Rightarrow> Inr v)"

subsection \<open>The browser's state\<close>

text \<open>
  Elements are named by references; the root element is \<open>DocumentElement\<close>. The index
  \<open>element_ids\<close> is what \<^verbatim>\<open>document.getElementById\<close> answers from: it may hold any
  element under \<^verbatim>\<open>theme-toggle\<close>, the root included, or none.

  The three closures the script registers as event listeners are the values of \<open>listener\<close>;
  the objects it registers them on are the values of \<open>target\<close>.

  \<open>matchMedia\<close> is \<open>None\<close> when \<^verbatim>\<open>window.matchMedia\<close> does not exist, and otherwise
  holds whether the query \<^verbatim>\<open>(prefers-color-scheme: dark)\<close> matches.

  A storage access may throw (storage disabled, a security restriction, the quota). Whether
  each of the three operations throws is part of the state: the environment does not change
  during the synchronous run of a function.
\<close>

datatype node = DocumentElement | Element nat

datatype listener = ClickListener | DOMContentLoadedListener | ChangeListener

datatype target = Document | Node node | MediaQueryList

record page =
  localStorage :: "string \<rightharpoonup> string"
  getItem_throws :: bool
  setItem_throws :: bool
  removeItem_throws :: bool
  attributes :: "node \<Rightarrow> (string \<rightharpoonup> string)"
  element_ids :: "string \<rightharpoonup> node"
  matchMedia :: "bool option"
  readyState :: string
  listeners :: "target \<Rightarrow> (string \<times> listener) list"

subsection \<open>The browser's operations\<close>

definition localStorage_getItem :: "string \<Rightarrow> page \<Rightarrow> exn + jsval" where
  "localStorage_getItem k s =
     (if getItem_throws s then Inl StorageError
      else Inr (case localStorage s k of None \<Rightarrow> Null | Some v \<Rightarrow> Str v))"

definition localStorage_setItem :: "string \<Rightarrow> jsval \<Rightarrow> page \<Rightarrow> exn + page" where
  "localStorage_setItem k v s =
     (if setItem_throws s then Inl StorageError
      else Inr (s\<lparr>localStorage := (localStorage s)(k \<mapsto> toString v)\<rparr>))"

definition localStorage_removeItem :: "string \<Rightarrow> page \<Rightarrow> exn + page" where
  "localStorage_removeItem k s =
     (if removeItem_throws s then Inl StorageError
      else Inr (s\<lparr>localStorage := (localStorage s)(k := None)\<rparr>))"

definition getAttribute :: "node \<Rightarrow> string \<Rightarrow> page \<Rightarrow> jsval" where
  "getAttribute n name s = (case attributes s n name of None \<Rightarrow> Null | Some v \<Rightarrow> Str v)"

definition setAttribute :: "node \<Rightarrow> string \<Rightarrow> jsval \<Rightarrow> page \<Rightarrow> page" where
  "setAttribute n name v s =
     s\<lparr>attributes := (attributes s)(n := (attributes s n)(name \<mapsto> toString v))\<rparr>"

definition removeAttribute :: "node \<Rightarrow> string \<Rightarrow> page \<Rightarrow> page" where
  "removeAttribute n name s =
     s\<lparr>attributes := (attributes s)(n := (attributes s n)(name := None))\<rparr>"

definition getElementById :: "string \<Rightarrow> page \<Rightarrow> node option" where
  "getElementById i s = element_ids s i"

definition addEventListener :: "target \<Rightarrow> string \<Rightarrow> listener \<Rightarrow> page \<Rightarrow> page" where
  "addEventListener t ty l s = s\<lparr>listeners := (listeners s)(t := listeners s t @ [(ty, l)])\<rparr>"

text \<open>A method call on a reference that may be \<^verbatim>\<open>null\<close> throws a TypeError when it is.\<close>

definition deref :: "node option \<Rightarrow> exn + node" where
  "deref r = (case r of None \<Rightarrow> Inl TypeError | Some n \<Rightarrow> Inr n)"

subsection \<open>The script\<close>

definition THEME_STORAGE_KEY :: string where
  "THEME_STORAGE_KEY = ''theme-preference''"

definition THEME_ATTRIBUTE :: string where
  "THEME_ATTRIBUTE = ''data-theme''"

definition getSystemPreference :: "page \<Rightarrow> jsval" where
  "getSystemPreference s =
     (if (case matchMedia s of None \<Rightarrow> False | Some matches \<Rightarrow> matches) then Str ''dark''
      else Str ''light'')"

definition getStoredPreference :: "page \<Rightarrow> exn + jsval" where
  "getStoredPreference s =
     try_catch (localStorage_getItem THEME_STORAGE_KEY s) (\<lambda>e. Inr Null)"

definition setTheme :: "jsval \<Rightarrow> page \<Rightarrow> exn + page" where
  "setTheme theme s =
     (let html = DocumentElement in
      if theme = Str ''dark'' \<or> theme = Str ''light'' then
        (let s1 = setAttribute html THEME_ATTRIBUTE theme s in
         try_catch (localStorage_setItem THEME_STORAGE_KEY theme s1) (\<lambda>e. Inr s1))
      else
        (let s1 = removeAttribute html THEME_ATTRIBUTE s in
         try_catch (localStorage_removeItem THEME_STORAGE_KEY s1) (\<lambda>e. Inr s1)))"

definition getCurrentTheme :: "page \<Rightarrow> jsval" where
  "getCurrentTheme s =
     (let html = DocumentElement;
          dataTheme = getAttribute html THEME_ATTRIBUTE s in
      if dataTheme = Str ''dark'' \<or> dataTheme = Str ''light'' then dataTheme
      else getSystemPreference s)"

definition initTheme :: "page \<Rightarrow> exn + page" where
  "initTheme s =
     andThen (getStoredPreference s) (\<lambda>stored.
       if stored = Str ''dark'' \<or> stored = Str ''light'' then setTheme stored s
       else
         (let systemTheme = getSystemPreference s in
          Inr (setAttribute DocumentElement THEME_ATTRIBUTE systemTheme s)))"

definition toggleTheme :: "page \<Rightarrow> exn + page" where
  "toggleTheme s =
     (let current = getCurrentTheme s in
      andThen (getStoredPreference s) (\<lambda>stored.
        if stored = Str ''dark'' then setTheme (Str ''light'') s
        else if stored = Str ''light'' then setTheme (Str ''dark'') s
        else
          (let systemTheme = getSystemPreference s in
           setTheme (if systemTheme = Str ''dark'' then Str ''light'' else Str ''dark'') s)))"

definition updateToggleButton :: "page \<Rightarrow> exn + page" where
  "updateToggleButton s =
     (let button = getElementById ''theme-toggle'' s in
      if button = None then Inr s
      else
        (let currentTheme = getCurrentTheme s in
         andThen (deref button) (\<lambda>b.
         andThen (Inr (setAttribute b ''aria-label''
                    (if currentTheme = Str ''dark'' then Str ''Switch to light mode''
                     else Str ''Switch to dark mode'') s)) (\<lambda>s1.
         andThen (deref button) (\<lambda>b.
           Inr (setAttribute b ''title''
                  (if currentTheme = Str ''dark'' then Str ''Switch to light mode''
                   else Str ''Switch to dark mode'') s1))))))"

text \<open>The click listener of the button: \<^verbatim>\<open>toggleTheme(); updateToggleButton();\<close>\<close>

definition onClick :: "page \<Rightarrow> exn + page" where
  "onClick s = andThen (toggleTheme s) updateToggleButton"

text \<open>
  The wiring that runs once the DOM is ready: the body of the \<^verbatim>\<open>DOMContentLoaded\<close>
  listener, which the script repeats word for word in the branch where the document is no
  longer loading.
\<close>

definition onDOMContentLoaded :: "page \<Rightarrow> exn + page" where
  "onDOMContentLoaded s =
     (let button = getElementById ''theme-toggle'' s in
      andThen
        (if button \<noteq> None then
           andThen (deref button) (\<lambda>b. Inr (addEventListener (Node b) ''click'' ClickListener s))
         else Inr s)
        updateToggleButton)"

text \<open>The listener of the media query's \<^verbatim>\<open>change\<close> event.\<close>

definition onChange :: "page \<Rightarrow> exn + page" where
  "onChange s =
     andThen (getStoredPreference s) (\<lambda>stored.
       if \<not> truthy stored then
         (let systemTheme = getSystemPreference s in
          updateToggleButton (setAttribute DocumentElement THEME_ATTRIBUTE systemTheme s))
       else Inr s)"

fun run_listener :: "listener \<Rightarrow> page \<Rightarrow> exn + page" where
  "run_listener ClickListener s = onClick s"
| "run_listener DOMContentLoadedListener s = onDOMContentLoaded s"
| "run_listener ChangeListener s = onChange s"

text \<open>The whole script, as the browser runs it when it loads the file.\<close>

definition script :: "page \<Rightarrow> exn + page" where
  "script s =
     andThen (initTheme s) (\<lambda>s1.
     andThen
       (if readyState s1 = ''loading'' then
          Inr (addEventListener Document ''DOMContentLoaded'' DOMContentLoadedListener s1)
        else onDOMContentLoaded s1) (\<lambda>s2.
     if matchMedia s2 \<noteq> None then
       Inr (addEventListener MediaQueryList ''change'' ChangeListener s2)
     else Inr s2))"

subsection \<open>A first visit\<close>

text \<open>
  The state of a first visit, which the examples below start from: nothing stored, no
  attribute set, a storage that works, a toggle button in the document, an operating system
  that prefers dark, and a document that is still loading.
\<close>

definition first_visit :: page where
  "first_visit =
     \<lparr>localStorage = Map.empty, getItem_throws = False, setItem_throws = False,
      removeItem_throws = False, attributes = (\<lambda>n. Map.empty),
      element_ids = [''theme-toggle'' \<mapsto> Element 0], matchMedia = Some True,
      readyState = ''loading'', listeners = (\<lambda>t. [])\<rparr>"

text \<open>
  Variations of it: a visitor who chose light before; an entry that the script did not
  write; a browser that refuses every storage access; a page without the toggle button,
  already loaded when the script runs.
\<close>

definition returning_visit :: page where
  "returning_visit = first_visit\<lparr>localStorage := [THEME_STORAGE_KEY \<mapsto> ''light'']\<rparr>"

definition corrupted_visit :: page where
  "corrupted_visit = first_visit\<lparr>localStorage := [THEME_STORAGE_KEY \<mapsto> ''blue'']\<rparr>"

definition blocked_visit :: page where
  "blocked_visit =
     first_visit\<lparr>getItem_throws := True, setItem_throws := True, removeItem_throws := True\<rparr>"

definition bare_visit :: page where
  "bare_visit = first_visit\<lparr>element_ids := Map.empty, readyState := ''complete''\<rparr>"

section \<open>What each function computes\<close>

text \<open>
  The \<^verbatim>\<open>try\<close>/\<^verbatim>\<open>catch\<close> blocks and the null checks leave no exception uncaught: each
  function of the script returns a value or a state.
\<close>

lemma getStoredPreference_value:
  "getStoredPreference s =
     Inr (if getItem_throws s then Null
          else (case localStorage s THEME_STORAGE_KEY of None \<Rightarrow> Null | Some v \<Rightarrow> Str v))"
  by (simp add: getStoredPreference_def try_catch_def localStorage_getItem_def)

lemma setTheme_explicit:
  assumes "theme = Str ''dark'' \<or> theme = Str ''light''"
  shows "setTheme theme s =
     Inr (if setItem_throws s then setAttribute DocumentElement THEME_ATTRIBUTE theme s
          else (setAttribute DocumentElement THEME_ATTRIBUTE theme s)
                 \<lparr>localStorage := (localStorage s)(THEME_STORAGE_KEY \<mapsto> toString theme)\<rparr>)"
  using assms
  by (auto simp add: setTheme_def try_catch_def localStorage_setItem_def setAttribute_def)

lemma setTheme_system:
  assumes "theme \<noteq> Str ''dark''" and "theme \<noteq> Str ''light''"
  shows "setTheme theme s =
     Inr (if removeItem_throws s then removeAttribute DocumentElement THEME_ATTRIBUTE s
          else (removeAttribute DocumentElement THEME_ATTRIBUTE s)
                 \<lparr>localStorage := (localStorage s)(THEME_STORAGE_KEY := None)\<rparr>)"
  using assms
  by (simp add: setTheme_def try_catch_def localStorage_removeItem_def removeAttribute_def)

lemma setTheme_returns: "\<exists>s'. setTheme theme s = Inr s'"
proof (cases "theme = Str ''dark'' \<or> theme = Str ''light''")
  case True
  then show ?thesis by (simp add: setTheme_explicit)
next
  case False
  then show ?thesis by (simp add: setTheme_system)
qed

lemma getSystemPreference_range:
  "getSystemPreference s = Str ''dark'' \<or> getSystemPreference s = Str ''light''"
  by (simp add: getSystemPreference_def)

lemma getCurrentTheme_range:
  "getCurrentTheme s = Str ''dark'' \<or> getCurrentTheme s = Str ''light''"
  using getSystemPreference_range [of s]
  by (auto simp add: getCurrentTheme_def Let_def)

lemma getAttribute_setAttribute:
  "getAttribute n' k' (setAttribute n k v s) =
     (if n' = n \<and> k' = k then Str (toString v) else getAttribute n' k' s)"
  by (simp add: getAttribute_def setAttribute_def)

lemma getSystemPreference_setAttribute:
  "getSystemPreference (setAttribute n k v s) = getSystemPreference s"
  by (simp add: getSystemPreference_def setAttribute_def)

lemma getCurrentTheme_setAttribute:
  "k \<noteq> THEME_ATTRIBUTE \<Longrightarrow> getCurrentTheme (setAttribute n k v s) = getCurrentTheme s"
  by (simp add: getCurrentTheme_def Let_def getAttribute_setAttribute
        getSystemPreference_setAttribute)

lemma initTheme_returns: "\<exists>s'. initTheme s = Inr s'"
  using setTheme_returns
  by (simp add: initTheme_def getStoredPreference_value andThen_def Let_def)

lemma toggleTheme_returns: "\<exists>s'. toggleTheme s = Inr s'"
  using setTheme_returns
  by (simp add: toggleTheme_def getStoredPreference_value andThen_def Let_def)

lemma updateToggleButton_absent:
  "getElementById ''theme-toggle'' s = None \<Longrightarrow> updateToggleButton s = Inr s"
  by (simp add: updateToggleButton_def)

lemma updateToggleButton_present:
  assumes "getElementById ''theme-toggle'' s = Some b"
  shows "updateToggleButton s =
     Inr (setAttribute b ''title''
            (if getCurrentTheme s = Str ''dark'' then Str ''Switch to light mode''
             else Str ''Switch to dark mode'')
         (setAttribute b ''aria-label''
            (if getCurrentTheme s = Str ''dark'' then Str ''Switch to light mode''
             else Str ''Switch to dark mode'') s))"
  using assms by (simp add: updateToggleButton_def andThen_def deref_def Let_def)

lemma updateToggleButton_returns: "\<exists>s'. updateToggleButton s = Inr s'"
  by (cases "getElementById ''theme-toggle'' s")
     (simp_all add: updateToggleButton_absent updateToggleButton_present)

lemma onClick_returns: "\<exists>s'. onClick s = Inr s'"
proof -
  obtain s1 where "toggleTheme s = Inr s1" using toggleTheme_returns by blast
  then show ?thesis using updateToggleButton_returns [of s1] by (simp add: onClick_def andThen_def)
qed

lemma onDOMContentLoaded_returns: "\<exists>s'. onDOMContentLoaded s = Inr s'"
  using updateToggleButton_returns
  by (cases "getElementById ''theme-toggle'' s")
     (simp_all add: onDOMContentLoaded_def andThen_def deref_def Let_def)

lemma onChange_returns: "\<exists>s'. onChange s = Inr s'"
  using updateToggleButton_returns
  by (simp add: onChange_def getStoredPreference_value andThen_def Let_def)

lemma script_returns: "\<exists>s'. script s = Inr s'"
proof -
  obtain s1 where s1: "initTheme s = Inr s1" using initTheme_returns by blast
  obtain s2 where s2: "onDOMContentLoaded s1 = Inr s2" using onDOMContentLoaded_returns by blast
  show ?thesis by (simp add: script_def andThen_def s1 s2)
qed

text \<open>Neither \<open>setTheme\<close> nor \<open>toggleTheme\<close> adds or removes an element.\<close>

lemma setTheme_element_ids:
  "setTheme theme s = Inr s' \<Longrightarrow> element_ids s' = element_ids s"
  by (cases "theme = Str ''dark'' \<or> theme = Str ''light''")
     (auto simp add: setTheme_explicit setTheme_system setAttribute_def removeAttribute_def
        split: if_splits)

lemma toggleTheme_element_ids:
  "toggleTheme s = Inr s' \<Longrightarrow> element_ids s' = element_ids s"
  by (auto simp add: toggleTheme_def getStoredPreference_value andThen_def Let_def
        dest: setTheme_element_ids split: if_splits)

section \<open>The properties of the theme controller\<close>

text \<open>
  Claim C1. While storage writes succeed, \<open>toggleTheme\<close> follows its table of four rows:
  a stored \<^verbatim>\<open>dark\<close> becomes \<^verbatim>\<open>light\<close>, a stored \<^verbatim>\<open>light\<close> becomes \<^verbatim>\<open>dark\<close>, and with
  nothing stored the opposite of the system preference is chosen. In each row the stored
  entry and the attribute of the root element both hold the new value afterwards.
\<close>

theorem toggleTheme_table:
  assumes "\<not> setItem_throws s"
  shows
    "(getStoredPreference s = Inr (Str ''dark'') \<longrightarrow>
        (\<exists>s'. toggleTheme s = Inr s' \<and>
              localStorage s' THEME_STORAGE_KEY = Some ''light'' \<and>
              getAttribute DocumentElement THEME_ATTRIBUTE s' = Str ''light'')) \<and>
     (getStoredPreference s = Inr (Str ''light'') \<longrightarrow>
        (\<exists>s'. toggleTheme s = Inr s' \<and>
              localStorage s' THEME_STORAGE_KEY = Some ''dark'' \<and>
              getAttribute DocumentElement THEME_ATTRIBUTE s' = Str ''dark'')) \<and>
     (getStoredPreference s = Inr Null \<and> getSystemPreference s = Str ''dark'' \<longrightarrow>
        (\<exists>s'. toggleTheme s = Inr s' \<and>
              localStorage s' THEME_STORAGE_KEY = Some ''light'' \<and>
              getAttribute DocumentElement THEME_ATTRIBUTE s' = Str ''light'')) \<and>
     (getStoredPreference s = Inr Null \<and> getSystemPreference s = Str ''light'' \<longrightarrow>
        (\<exists>s'. toggleTheme s = Inr s' \<and>
              localStorage s' THEME_STORAGE_KEY = Some ''dark'' \<and>
              getAttribute DocumentElement THEME_ATTRIBUTE s' = Str ''dark''))"
  using assms
  by (simp add: toggleTheme_def andThen_def Let_def setTheme_explicit
        getAttribute_def setAttribute_def)

text \<open>The four rows, each at a state of its own.\<close>

theorem toggleTheme_table_witness:
  "\<not> setItem_throws first_visit \<and>
   (getStoredPreference (first_visit\<lparr>localStorage := [THEME_STORAGE_KEY \<mapsto> ''dark'']\<rparr>)
      = Inr (Str ''dark'') \<and>
    (\<exists>s'. toggleTheme (first_visit\<lparr>localStorage := [THEME_STORAGE_KEY \<mapsto> ''dark'']\<rparr>) = Inr s' \<and>
          localStorage s' THEME_STORAGE_KEY = Some ''light'' \<and>
          getAttribute DocumentElement THEME_ATTRIBUTE s' = Str ''light'')) \<and>
   (getStoredPreference (first_visit\<lparr>localStorage := [THEME_STORAGE_KEY \<mapsto> ''light'']\<rparr>)
      = Inr (Str ''light'') \<and>
    (\<exists>s'. toggleTheme (first_visit\<lparr>localStorage := [THEME_STORAGE_KEY \<mapsto> ''light'']\<rparr>) = Inr s' \<and>
          localStorage s' THEME_STORAGE_KEY = Some ''dark'' \<and>
          getAttribute DocumentElement THEME_ATTRIBUTE s' = Str ''dark'')) \<and>
   (getStoredPreference first_visit = Inr Null \<and>
    getSystemPreference first_visit = Str ''dark'' \<and>
    (\<exists>s'. toggleTheme first_visit = Inr s' \<and>
          localStorage s' THEME_STORAGE_KEY = Some ''light'' \<and>
          getAttribute DocumentElement THEME_ATTRIBUTE s' = Str ''light'')) \<and>
   (getStoredPreference (first_visit\<lparr>matchMedia := Some False\<rparr>) = Inr Null \<and>
    getSystemPreference (first_visit\<lparr>matchMedia := Some False\<rparr>) = Str ''light'' \<and>
    (\<exists>s'. toggleTheme (first_visit\<lparr>matchMedia := Some False\<rparr>) = Inr s' \<and>
          localStorage s' THEME_STORAGE_KEY = Some ''dark'' \<and>
          getAttribute DocumentElement THEME_ATTRIBUTE s' = Str ''dark''))"
proof -
  let ?d = "first_visit\<lparr>localStorage := [THEME_STORAGE_KEY \<mapsto> ''dark'']\<rparr>"
  let ?l = "first_visit\<lparr>localStorage := [THEME_STORAGE_KEY \<mapsto> ''light'']\<rparr>"
  let ?m = "first_visit\<lparr>matchMedia := Some False\<rparr>"
  have w: "\<not> setItem_throws first_visit" "\<not> setItem_throws ?d" "\<not> setItem_throws ?l"
    "\<not> setItem_throws ?m"
    by (simp_all add: first_visit_def)
  have h: "getStoredPreference ?d = Inr (Str ''dark'')"
    "getStoredPreference ?l = Inr (Str ''light'')"
    "getStoredPreference first_visit = Inr Null"
    "getStoredPreference ?m = Inr Null"
    "getSystemPreference first_visit = Str ''dark''"
    "getSystemPreference ?m = Str ''light''"
    by (simp_all add: getStoredPreference_value getSystemPreference_def first_visit_def)
  show ?thesis
    using toggleTheme_table [OF w(2)] toggleTheme_table [OF w(3)]
      toggleTheme_table [OF w(1)] toggleTheme_table [OF w(4)] w(1) h
    by simp
qed

text \<open>
  Claim C2. Every stored value outside \<^verbatim>\<open>dark\<close> and \<^verbatim>\<open>light\<close> is to be read as no
  preference. The script does not do so at the entry \<^verbatim>\<open>blue\<close>: \<open>getStoredPreference\<close>
  returns \<^verbatim>\<open>blue\<close>, which is none of the values its documentation lists, and not the
  absent value. \<open>initTheme\<close> tests membership and shows the system's dark theme, but the
  listener of the system preference's change event tests only that the value is truthy:
  when the system changes to light it leaves the attribute at \<^verbatim>\<open>dark\<close>, whereas from the
  same page with no entry it sets the attribute to \<^verbatim>\<open>light\<close>.
\<close>

theorem getStoredPreference_corrupted_entry:
  "localStorage corrupted_visit THEME_STORAGE_KEY = Some ''blue'' \<and>
   getStoredPreference corrupted_visit = Inr (Str ''blue'') \<and>
   getStoredPreference corrupted_visit \<noteq> Inr Null \<and>
   initTheme corrupted_visit =
     Inr (setAttribute DocumentElement THEME_ATTRIBUTE (Str ''dark'') corrupted_visit) \<and>
   onChange ((setAttribute DocumentElement THEME_ATTRIBUTE (Str ''dark'') corrupted_visit)
               \<lparr>matchMedia := Some False\<rparr>) =
     Inr ((setAttribute DocumentElement THEME_ATTRIBUTE (Str ''dark'') corrupted_visit)
            \<lparr>matchMedia := Some False\<rparr>) \<and>
   initTheme first_visit =
     Inr (setAttribute DocumentElement THEME_ATTRIBUTE (Str ''dark'') first_visit) \<and>
   andThen (onChange ((setAttribute DocumentElement THEME_ATTRIBUTE (Str ''dark'') first_visit)
                        \<lparr>matchMedia := Some False\<rparr>))
     (\<lambda>s'. Inr (getAttribute DocumentElement THEME_ATTRIBUTE s')) = Inr (Str ''light'')"
proof -
  have entry: "localStorage corrupted_visit THEME_STORAGE_KEY = Some ''blue''"
    by (simp add: corrupted_visit_def)
  have stored: "getStoredPreference corrupted_visit = Inr (Str ''blue'')"
    by (simp add: getStoredPreference_value entry) (simp add: corrupted_visit_def first_visit_def)
  have init_c: "initTheme corrupted_visit =
     Inr (setAttribute DocumentElement THEME_ATTRIBUTE (Str ''dark'') corrupted_visit)"
    by (simp add: initTheme_def andThen_def stored)
       (simp add: getSystemPreference_def corrupted_visit_def first_visit_def)
  have change_c: "onChange ((setAttribute DocumentElement THEME_ATTRIBUTE (Str ''dark'')
       corrupted_visit)\<lparr>matchMedia := Some False\<rparr>) =
     Inr ((setAttribute DocumentElement THEME_ATTRIBUTE (Str ''dark'') corrupted_visit)
            \<lparr>matchMedia := Some False\<rparr>)"
    by (simp add: onChange_def andThen_def getStoredPreference_value setAttribute_def
          corrupted_visit_def first_visit_def)
  have init_f: "initTheme first_visit =
     Inr (setAttribute DocumentElement THEME_ATTRIBUTE (Str ''dark'') first_visit)"
    by (simp add: initTheme_def andThen_def getStoredPreference_value getSystemPreference_def
          first_visit_def)
  have change_f: "andThen
       (onChange ((setAttribute DocumentElement THEME_ATTRIBUTE (Str ''dark'') first_visit)
                    \<lparr>matchMedia := Some False\<rparr>))
       (\<lambda>s'. Inr (getAttribute DocumentElement THEME_ATTRIBUTE s')) = Inr (Str ''light'')"
    by (simp add: onChange_def andThen_def getStoredPreference_value setAttribute_def
          getSystemPreference_def updateToggleButton_def getElementById_def deref_def
          getCurrentTheme_def getAttribute_def Let_def first_visit_def THEME_ATTRIBUTE_def)
  show ?thesis using entry stored init_c change_c init_f change_f by simp
qed

text \<open>
  The membership test is made where \<open>initTheme\<close> and \<open>toggleTheme\<close> use the value: for
  every value that \<open>getStoredPreference\<close> returns outside \<^verbatim>\<open>dark\<close> and \<^verbatim>\<open>light\<close>, the
  first sets the attribute to the system preference and the second sets the opposite of the
  system preference, as they do for an absent entry. \<open>getCurrentTheme\<close> returns the system
  preference whenever the attribute is absent or invalid.
\<close>

lemma read_path_normalisation:
  "getStoredPreference s =
     Inr (if getItem_throws s then Null
          else (case localStorage s THEME_STORAGE_KEY of None \<Rightarrow> Null | Some v \<Rightarrow> Str v)) \<and>
   (getStoredPreference s = Inr v \<and> v \<noteq> Str ''dark'' \<and> v \<noteq> Str ''light'' \<longrightarrow>
      initTheme s =
        Inr (setAttribute DocumentElement THEME_ATTRIBUTE (getSystemPreference s) s) \<and>
      toggleTheme s =
        setTheme (if getSystemPreference s = Str ''dark'' then Str ''light'' else Str ''dark'') s) \<and>
   (getAttribute DocumentElement THEME_ATTRIBUTE s \<noteq> Str ''dark'' \<and>
    getAttribute DocumentElement THEME_ATTRIBUTE s \<noteq> Str ''light'' \<longrightarrow>
      getCurrentTheme s = getSystemPreference s)"
  by (simp add: getStoredPreference_value initTheme_def toggleTheme_def getCurrentTheme_def
        andThen_def Let_def)

text \<open>The entry \<^verbatim>\<open>blue\<close> on a system that prefers dark.\<close>

lemma read_path_normalisation_at_blue:
  "getStoredPreference corrupted_visit = Inr (Str ''blue'') \<and>
   Str ''blue'' \<noteq> Str ''dark'' \<and> Str ''blue'' \<noteq> Str ''light'' \<and>
   initTheme corrupted_visit =
     Inr (setAttribute DocumentElement THEME_ATTRIBUTE (Str ''dark'') corrupted_visit) \<and>
   toggleTheme corrupted_visit = setTheme (Str ''light'') corrupted_visit \<and>
   getAttribute DocumentElement THEME_ATTRIBUTE corrupted_visit = Null \<and>
   getCurrentTheme corrupted_visit = Str ''dark''"
proof -
  have h: "getStoredPreference corrupted_visit = Inr (Str ''blue'')"
    "getSystemPreference corrupted_visit = Str ''dark''"
    "getAttribute DocumentElement THEME_ATTRIBUTE corrupted_visit = Null"
    by (simp_all add: corrupted_visit_def first_visit_def getStoredPreference_value
          getSystemPreference_def getAttribute_def THEME_STORAGE_KEY_def)
  have e: "\<not> getItem_throws corrupted_visit"
    "localStorage corrupted_visit THEME_STORAGE_KEY = Some ''blue''"
    by (simp_all add: corrupted_visit_def first_visit_def)
  show ?thesis
    using read_path_normalisation [of corrupted_visit "Str ''blue''"] h by (simp add: e)
qed

text \<open>
  Claim C3. When the stored preference is \<^verbatim>\<open>dark\<close>, the listener of the system
  preference's change event changes nothing: the state it returns is the state it was given,
  so the attribute of the root element and the stored entry are as before.
\<close>

theorem onChange_explicit_dark:
  assumes "getStoredPreference s = Inr (Str ''dark'')"
  shows "onChange s = Inr s"
  using assms by (simp add: onChange_def andThen_def)

text \<open>A stored \<^verbatim>\<open>dark\<close> while the system has changed to light.\<close>

theorem onChange_explicit_dark_witness:
  "getStoredPreference
     (first_visit\<lparr>localStorage := [THEME_STORAGE_KEY \<mapsto> ''dark''], matchMedia := Some False\<rparr>)
     = Inr (Str ''dark'') \<and>
   onChange (first_visit\<lparr>localStorage := [THEME_STORAGE_KEY \<mapsto> ''dark''], matchMedia := Some False\<rparr>)
     = Inr (first_visit\<lparr>localStorage := [THEME_STORAGE_KEY \<mapsto> ''dark''], matchMedia := Some False\<rparr>)"
proof -
  let ?s = "first_visit\<lparr>localStorage := [THEME_STORAGE_KEY \<mapsto> ''dark''], matchMedia := Some False\<rparr>"
  have h: "getStoredPreference ?s = Inr (Str ''dark'')"
    by (simp add: first_visit_def getStoredPreference_value)
  show ?thesis using onChange_explicit_dark [OF h] h by simp
qed

text \<open>
  Claim C4. While no storage operation throws, \<open>setTheme x\<close> for \<open>x\<close> one of
  \<^verbatim>\<open>dark\<close> and \<^verbatim>\<open>light\<close> followed by \<open>getStoredPreference\<close> returns \<open>x\<close>, and
  \<open>setTheme\<close> of \<^verbatim>\<open>null\<close> followed by \<open>getStoredPreference\<close> returns the absent value.
\<close>

theorem setTheme_roundtrip:
  assumes "\<not> getItem_throws s" and "\<not> setItem_throws s" and "\<not> removeItem_throws s"
  shows "(x = Str ''dark'' \<or> x = Str ''light'' \<longrightarrow>
            andThen (setTheme x s) getStoredPreference = Inr x) \<and>
         andThen (setTheme Null s) getStoredPreference = Inr Null"
  using assms
  by (auto simp add: setTheme_explicit setTheme_system andThen_def getStoredPreference_value
        setAttribute_def removeAttribute_def)

text \<open>Both round trips from a first visit.\<close>

theorem setTheme_roundtrip_witness:
  "\<not> getItem_throws first_visit \<and> \<not> setItem_throws first_visit \<and>
   \<not> removeItem_throws first_visit \<and>
   andThen (setTheme (Str ''dark'') first_visit) getStoredPreference = Inr (Str ''dark'') \<and>
   andThen (setTheme Null first_visit) getStoredPreference = Inr Null"
proof -
  have h: "\<not> getItem_throws first_visit" "\<not> setItem_throws first_visit"
    "\<not> removeItem_throws first_visit"
    by (simp_all add: first_visit_def)
  show ?thesis using setTheme_roundtrip [OF h, of "Str ''dark''"] h by simp
qed

text \<open>
  Claim C5. From every state, \<open>initTheme\<close> reads the stored preference. If it is
  \<^verbatim>\<open>dark\<close> or \<^verbatim>\<open>light\<close>, the result is that of \<open>setTheme\<close> on it, and the attribute and
  the stored entry both hold it afterwards. Otherwise only the attribute of the root element
  is set, to the system preference, and the storage is what it was.
\<close>

theorem initTheme_cases:
  "\<exists>stored. getStoredPreference s = Inr stored \<and>
     (stored = Str ''dark'' \<or> stored = Str ''light'' \<longrightarrow>
        initTheme s = setTheme stored s \<and>
        (\<exists>s'. initTheme s = Inr s' \<and>
              getAttribute DocumentElement THEME_ATTRIBUTE s' = stored \<and>
              localStorage s' THEME_STORAGE_KEY = Some (toString stored))) \<and>
     (stored \<noteq> Str ''dark'' \<and> stored \<noteq> Str ''light'' \<longrightarrow>
        (\<exists>s'. initTheme s = Inr s' \<and>
              s' = setAttribute DocumentElement THEME_ATTRIBUTE (getSystemPreference s) s \<and>
              getAttribute DocumentElement THEME_ATTRIBUTE s' = getSystemPreference s \<and>
              localStorage s' = localStorage s))"
proof -
  obtain stored where st: "getStoredPreference s = Inr stored"
    by (simp add: getStoredPreference_value)
  have explicit: "initTheme s = setTheme stored s \<and>
        (\<exists>s'. initTheme s = Inr s' \<and>
              getAttribute DocumentElement THEME_ATTRIBUTE s' = stored \<and>
              localStorage s' THEME_STORAGE_KEY = Some (toString stored))"
    if e: "stored = Str ''dark'' \<or> stored = Str ''light''"
  proof -
    have init: "initTheme s = setTheme stored s"
      using e st by (simp add: initTheme_def andThen_def)
    have kept: "localStorage s THEME_STORAGE_KEY = Some (toString stored)"
      using e st by (auto simp add: getStoredPreference_value split: if_splits option.splits)
    show ?thesis
      using e kept by (auto simp add: init setTheme_explicit getAttribute_def setAttribute_def)
  qed
  have system: "\<exists>s'. initTheme s = Inr s' \<and>
              s' = setAttribute DocumentElement THEME_ATTRIBUTE (getSystemPreference s) s \<and>
              getAttribute DocumentElement THEME_ATTRIBUTE s' = getSystemPreference s \<and>
              localStorage s' = localStorage s"
    if n: "stored \<noteq> Str ''dark'' \<and> stored \<noteq> Str ''light''"
    using n st getSystemPreference_range [of s]
    by (auto simp add: initTheme_def andThen_def Let_def getAttribute_def setAttribute_def)
  show ?thesis using st explicit system by blast
qed

text \<open>A visitor who had chosen light, and a first visit on a system that prefers dark.\<close>

theorem initTheme_cases_witness:
  "getStoredPreference returning_visit = Inr (Str ''light'') \<and>
   initTheme returning_visit = setTheme (Str ''light'') returning_visit \<and>
   (\<exists>s'. initTheme returning_visit = Inr s' \<and>
         getAttribute DocumentElement THEME_ATTRIBUTE s' = Str ''light'' \<and>
         localStorage s' THEME_STORAGE_KEY = Some ''light'') \<and>
   getStoredPreference first_visit = Inr Null \<and>
   (\<exists>s'. initTheme first_visit = Inr s' \<and>
         getAttribute DocumentElement THEME_ATTRIBUTE s' = Str ''dark'' \<and>
         localStorage s' = localStorage first_visit)"
proof -
  have h: "getStoredPreference returning_visit = Inr (Str ''light'')"
    "getStoredPreference first_visit = Inr Null"
    "getSystemPreference first_visit = Str ''dark''"
    by (simp_all add: returning_visit_def first_visit_def getStoredPreference_value
          getSystemPreference_def)
  have explicit: "initTheme returning_visit = setTheme (Str ''light'') returning_visit \<and>
      (\<exists>s'. initTheme returning_visit = Inr s' \<and>
            getAttribute DocumentElement THEME_ATTRIBUTE s' = Str ''light'' \<and>
            localStorage s' THEME_STORAGE_KEY = Some ''light'')"
  proof -
    obtain stored where "getStoredPreference returning_visit = Inr stored"
      and c: "stored = Str ''dark'' \<or> stored = Str ''light'' \<longrightarrow>
        initTheme returning_visit = setTheme stored returning_visit \<and>
        (\<exists>s'. initTheme returning_visit = Inr s' \<and>
              getAttribute DocumentElement THEME_ATTRIBUTE s' = stored \<and>
              localStorage s' THEME_STORAGE_KEY = Some (toString stored))"
      using initTheme_cases [of returning_visit] by blast
    then have s: "stored = Str ''light''" using h(1) by simp
    have d: "Str ''light'' = Str ''dark'' \<or> Str ''light'' = Str ''light''" by simp
    show ?thesis using c [unfolded s, THEN mp, OF d] unfolding toString.simps .
  qed
  have system: "\<exists>s'. initTheme first_visit = Inr s' \<and>
         getAttribute DocumentElement THEME_ATTRIBUTE s' = Str ''dark'' \<and>
         localStorage s' = localStorage first_visit"
  proof -
    obtain stored where "getStoredPreference first_visit = Inr stored"
      and c: "stored \<noteq> Str ''dark'' \<and> stored \<noteq> Str ''light'' \<longrightarrow>
        (\<exists>s'. initTheme first_visit = Inr s' \<and>
              s' = setAttribute DocumentElement THEME_ATTRIBUTE
                     (getSystemPreference first_visit) first_visit \<and>
              getAttribute DocumentElement THEME_ATTRIBUTE s' = getSystemPreference first_visit \<and>
              localStorage s' = localStorage first_visit)"
      using initTheme_cases [of first_visit] by blast
    then have s: "stored = Null" using h(2) by simp
    have d: "Null \<noteq> Str ''dark'' \<and> Null \<noteq> Str ''light''" by simp
    obtain s' where "initTheme first_visit = Inr s'"
      and "getAttribute DocumentElement THEME_ATTRIBUTE s' = getSystemPreference first_visit"
      and "localStorage s' = localStorage first_visit"
      using c [unfolded s, THEN mp, OF d] by blast
    then show ?thesis unfolding h(3) by blast
  qed
  show ?thesis using h(1,2) explicit system by blast
qed

text \<open>
  Claim C6. No storage fault escapes. When the read throws, \<open>getStoredPreference\<close> returns
  the absent value. When the write throws inside \<open>setTheme\<close> of \<^verbatim>\<open>dark\<close> or \<^verbatim>\<open>light\<close>,
  the attribute is set all the same, and when the removal throws inside \<open>setTheme\<close> of
  \<^verbatim>\<open>null\<close>, the attribute is removed all the same. Every function of the script, the
  listeners and the script as a whole return normally from every state.
\<close>

theorem storage_faults_contained:
  "(getItem_throws s \<longrightarrow> getStoredPreference s = Inr Null) \<and>
   (setItem_throws s \<and> (theme = Str ''dark'' \<or> theme = Str ''light'') \<longrightarrow>
      setTheme theme s = Inr (setAttribute DocumentElement THEME_ATTRIBUTE theme s)) \<and>
   (removeItem_throws s \<and> theme = Null \<longrightarrow>
      setTheme theme s = Inr (removeAttribute DocumentElement THEME_ATTRIBUTE s)) \<and>
   (\<exists>v. getStoredPreference s = Inr v) \<and>
   (\<exists>s'. setTheme theme s = Inr s') \<and>
   (\<exists>s'. initTheme s = Inr s') \<and>
   (\<exists>s'. toggleTheme s = Inr s') \<and>
   (\<exists>s'. updateToggleButton s = Inr s') \<and>
   (\<exists>s'. onClick s = Inr s') \<and>
   (\<exists>s'. onDOMContentLoaded s = Inr s') \<and>
   (\<exists>s'. onChange s = Inr s') \<and>
   (\<exists>s'. script s = Inr s')"
proof -
  have read: "getItem_throws s \<longrightarrow> getStoredPreference s = Inr Null"
    by (simp add: getStoredPreference_value)
  have "write": "setItem_throws s \<and> (theme = Str ''dark'' \<or> theme = Str ''light'') \<longrightarrow>
      setTheme theme s = Inr (setAttribute DocumentElement THEME_ATTRIBUTE theme s)"
    by (auto simp add: setTheme_explicit)
  have remove: "removeItem_throws s \<and> theme = Null \<longrightarrow>
      setTheme theme s = Inr (removeAttribute DocumentElement THEME_ATTRIBUTE s)"
    by (simp add: setTheme_system)
  have stored: "\<exists>v. getStoredPreference s = Inr v"
    by (simp add: getStoredPreference_value)
  show ?thesis
    using read "write" remove stored setTheme_returns [of theme s] initTheme_returns [of s]
      toggleTheme_returns [of s] updateToggleButton_returns [of s] onClick_returns [of s]
      onDOMContentLoaded_returns [of s] onChange_returns [of s] script_returns [of s]
    by blast
qed

text \<open>A browser in which each of the three storage operations throws.\<close>

theorem storage_faults_contained_witness:
  "getItem_throws blocked_visit \<and> setItem_throws blocked_visit \<and>
   removeItem_throws blocked_visit \<and>
   getStoredPreference blocked_visit = Inr Null \<and>
   setTheme (Str ''dark'') blocked_visit =
     Inr (setAttribute DocumentElement THEME_ATTRIBUTE (Str ''dark'') blocked_visit) \<and>
   setTheme Null blocked_visit =
     Inr (removeAttribute DocumentElement THEME_ATTRIBUTE blocked_visit) \<and>
   (\<exists>s'. script blocked_visit = Inr s')"
proof -
  have h: "getItem_throws blocked_visit" "setItem_throws blocked_visit"
    "removeItem_throws blocked_visit"
    by (simp_all add: blocked_visit_def)
  show ?thesis
    using storage_faults_contained [of blocked_visit "Str ''dark''"]
      storage_faults_contained [of blocked_visit Null] h
    by simp
qed

text \<open>
  Claim C7. Where the toggle button exists, after \<open>updateToggleButton\<close> its accessible
  label and its tooltip read \<^verbatim>\<open>Switch to light mode\<close> if and only if \<open>getCurrentTheme\<close>
  returns \<^verbatim>\<open>dark\<close>, and \<^verbatim>\<open>Switch to dark mode\<close> if and only if it returns
  \<^verbatim>\<open>light\<close>. The button may be any element, the root element included.
\<close>

theorem updateToggleButton_label:
  assumes "getElementById ''theme-toggle'' s = Some button"
  shows "\<exists>s'. updateToggleButton s = Inr s' \<and>
     getCurrentTheme s' = getCurrentTheme s \<and>
     ((getAttribute button ''aria-label'' s' = Str ''Switch to light mode'') =
        (getCurrentTheme s' = Str ''dark'')) \<and>
     ((getAttribute button ''aria-label'' s' = Str ''Switch to dark mode'') =
        (getCurrentTheme s' = Str ''light'')) \<and>
     ((getAttribute button ''title'' s' = Str ''Switch to light mode'') =
        (getCurrentTheme s' = Str ''dark'')) \<and>
     ((getAttribute button ''title'' s' = Str ''Switch to dark mode'') =
        (getCurrentTheme s' = Str ''light''))"
proof -
  let ?label = "if getCurrentTheme s = Str ''dark'' then Str ''Switch to light mode''
                else Str ''Switch to dark mode''"
  let ?s' = "setAttribute button ''title'' ?label (setAttribute button ''aria-label'' ?label s)"
  have run: "updateToggleButton s = Inr ?s'"
    using assms by (rule updateToggleButton_present)
  have theme: "getCurrentTheme ?s' = getCurrentTheme s"
    by (simp add: getCurrentTheme_setAttribute THEME_ATTRIBUTE_def)
  have label: "getAttribute button ''aria-label'' ?s' = ?label"
    by (simp add: getAttribute_def setAttribute_def)
  have title: "getAttribute button ''title'' ?s' = ?label"
    by (simp add: getAttribute_def setAttribute_def)
  have reads: "(?label = Str ''Switch to light mode'') = (getCurrentTheme s = Str ''dark'')"
    "(?label = Str ''Switch to dark mode'') = (getCurrentTheme s = Str ''light'')"
    using getCurrentTheme_range [of s] by auto
  show ?thesis
    by (rule exI [of _ ?s']) (simp only: run label title theme reads simp_thms)
qed

text \<open>The button of a first visit on a system that prefers dark.\<close>

theorem updateToggleButton_label_witness:
  "getElementById ''theme-toggle'' first_visit = Some (Element 0) \<and>
   (\<exists>s'. updateToggleButton first_visit = Inr s' \<and>
         getCurrentTheme s' = Str ''dark'' \<and>
         getAttribute (Element 0) ''aria-label'' s' = Str ''Switch to light mode'' \<and>
         getAttribute (Element 0) ''title'' s' = Str ''Switch to light mode'')"
proof -
  have h: "getElementById ''theme-toggle'' first_visit = Some (Element 0)"
    by (simp add: getElementById_def first_visit_def)
  have t: "getCurrentTheme first_visit = Str ''dark''"
    by (simp add: getCurrentTheme_def getAttribute_def getSystemPreference_def first_visit_def)
  show ?thesis using updateToggleButton_label [OF h] h t by auto
qed

text \<open>
  Claim C8. From every state, \<open>setTheme\<close> of \<^verbatim>\<open>dark\<close> run twice in succession ends in
  the state that running it once ends in, and likewise for \<^verbatim>\<open>light\<close>; in particular the
  attribute and the stored entry are the same.
\<close>

theorem setTheme_idempotent:
  "andThen (setTheme (Str ''dark'') s) (setTheme (Str ''dark'')) = setTheme (Str ''dark'') s \<and>
   andThen (setTheme (Str ''light'') s) (setTheme (Str ''light'')) = setTheme (Str ''light'') s"
  by (simp add: setTheme_explicit andThen_def setAttribute_def)

text \<open>
  Claim C9. When the document has no element \<^verbatim>\<open>theme-toggle\<close>, \<open>updateToggleButton\<close>
  returns the state unchanged, the wiring that runs when the DOM is ready attaches no
  listener and changes nothing, a click listener would do what \<open>toggleTheme\<close> does, and
  every function, listener and the script as a whole return normally.
\<close>

theorem no_toggle_control:
  assumes "getElementById ''theme-toggle'' s = None"
  shows "updateToggleButton s = Inr s \<and>
         onDOMContentLoaded s = Inr s \<and>
         onClick s = toggleTheme s \<and>
         (\<exists>v. getStoredPreference s = Inr v) \<and>
         (\<exists>s'. setTheme theme s = Inr s') \<and>
         (\<exists>s'. initTheme s = Inr s') \<and>
         (\<exists>s'. toggleTheme s = Inr s') \<and>
         (\<exists>s'. onChange s = Inr s') \<and>
         (\<exists>s'. script s = Inr s')"
proof -
  have button: "updateToggleButton s = Inr s"
    using assms by (rule updateToggleButton_absent)
  have ready: "onDOMContentLoaded s = Inr s"
    using assms by (simp add: onDOMContentLoaded_def andThen_def button)
  obtain s1 where toggled: "toggleTheme s = Inr s1"
    using toggleTheme_returns by blast
  have "getElementById ''theme-toggle'' s1 = None"
    using assms toggleTheme_element_ids [OF toggled] by (simp add: getElementById_def)
  then have click: "onClick s = toggleTheme s"
    by (simp add: onClick_def andThen_def toggled updateToggleButton_absent)
  have stored: "\<exists>v. getStoredPreference s = Inr v"
    by (simp add: getStoredPreference_value)
  show ?thesis
    using button ready click stored setTheme_returns [of theme s] initTheme_returns [of s]
      toggled onChange_returns [of s] script_returns [of s]
    by simp
qed

text \<open>A loaded page without the button.\<close>

theorem no_toggle_control_witness:
  "getElementById ''theme-toggle'' bare_visit = None \<and>
   updateToggleButton bare_visit = Inr bare_visit \<and>
   onDOMContentLoaded bare_visit = Inr bare_visit \<and>
   onClick bare_visit = toggleTheme bare_visit \<and>
   (\<exists>s'. script bare_visit = Inr s')"
proof -
  have h: "getElementById ''theme-toggle'' bare_visit = None"
    by (simp add: getElementById_def bare_visit_def)
  show ?thesis using no_toggle_control [OF h] h by simp
qed

text \<open>
  Claim C10. For a stored entry that is not empty and is neither \<^verbatim>\<open>dark\<close> nor
  \<^verbatim>\<open>light\<close>, the listener of the system preference's change event takes the entry for
  an explicit preference and returns the state unchanged (attribute and button labels
  included), while \<open>initTheme\<close> and \<open>toggleTheme\<close> take the branch of an absent entry.
\<close>

theorem onChange_corrupted_entry:
  assumes "\<not> getItem_throws s" and "localStorage s THEME_STORAGE_KEY = Some v"
    and "v \<noteq> []" and "v \<noteq> ''dark''" and "v \<noteq> ''light''"
  shows "onChange s = Inr s \<and>
         initTheme s =
           Inr (setAttribute DocumentElement THEME_ATTRIBUTE (getSystemPreference s) s) \<and>
         toggleTheme s =
           setTheme (if getSystemPreference s = Str ''dark'' then Str ''light''
                     else Str ''dark'') s"
  using assms
  by (simp add: onChange_def initTheme_def toggleTheme_def getStoredPreference_value
        andThen_def Let_def)

text \<open>The entry \<^verbatim>\<open>blue\<close> on a system that prefers dark.\<close>

theorem onChange_corrupted_entry_witness:
  "\<not> getItem_throws corrupted_visit \<and>
   localStorage corrupted_visit THEME_STORAGE_KEY = Some ''blue'' \<and>
   ''blue'' \<noteq> [] \<and> ''blue'' \<noteq> ''dark'' \<and> ''blue'' \<noteq> ''light'' \<and>
   onChange corrupted_visit = Inr corrupted_visit \<and>
   initTheme corrupted_visit =
     Inr (setAttribute DocumentElement THEME_ATTRIBUTE (Str ''dark'') corrupted_visit) \<and>
   toggleTheme corrupted_visit = setTheme (Str ''light'') corrupted_visit"
proof -
  have h: "\<not> getItem_throws corrupted_visit"
    "localStorage corrupted_visit THEME_STORAGE_KEY = Some ''blue''"
    by (simp_all add: corrupted_visit_def first_visit_def)
  have n: "''blue'' \<noteq> []" "''blue'' \<noteq> ''dark''" "''blue'' \<noteq> ''light''"
    by simp_all
  have p: "getSystemPreference corrupted_visit = Str ''dark''"
    by (simp add: getSystemPreference_def corrupted_visit_def first_visit_def)
  show ?thesis using onChange_corrupted_entry [OF h n] h p by simp
qed

end
